theory Spec2Isabelle
  imports Complex_Main "HOL-Library.FSet"
begin

section \<open>Price comparison between two retail sites: the embedding\<close>

text \<open>
  The program is \<^verbatim>\<open>compare-davidjones-and-iconic.py\<close>. Conventions of the embedding:
  \<^item> a Python \<^verbatim>\<open>float\<close> is an exact rational (\<^typ>\<open>rat\<close>): no binary rounding,
    no infinities and no NaN. The numbers the program reads are short decimal prices;
  \<^item> a Python \<^verbatim>\<open>str\<close> is a \<^typ>\<open>string\<close> of ASCII characters, so \<^verbatim>\<open>\d\<close>,
    \<^verbatim>\<open>\s\<close>, \<^verbatim>\<open>\b\<close> and \<^verbatim>\<open>lower()\<close> have their ASCII meaning;
  \<^item> \<^verbatim>\<open>None\<close> is \<^term>\<open>None\<close>; an exception is the left summand of a sum type;
  \<^item> \<^verbatim>\<open>print\<close> and \<^verbatim>\<open>time.sleep\<close> are left out;
  \<^item> \<^verbatim>\<open>http_request\<close>, the markup selectors and the URL library are the outside
    world: the functions that use them take it as an argument.
\<close>

datatype py_error =
    TypeError | AttributeError | ValueError | KeyError | UnboundLocalError | RuntimeError

subsection \<open>Regular expressions as Python's \<^verbatim>\<open>re\<close> matches them\<close>

text \<open>
  A backtracking matcher: \<open>rmatch r st\<close> lists every way \<open>r\<close> matches at \<open>st\<close>, in the
  order in which the backtracking engine tries them (a greedy repetition tries one more
  round first, an alternation its left branch first). \<^verbatim>\<open>re.search\<close> takes the first way
  at the leftmost start position that has one.
\<close>

datatype regex =
    Eps
  | Sym "char \<Rightarrow> bool"
  | Seq regex regex
  | Alt regex regex
  | Star regex
  | Grp nat regex
  | WordB
  | Eos

record mstate =
  prev :: "char option"
  rest :: string
  groups :: "(nat \<times> string) list"

definition is_digit :: "char \<Rightarrow> bool" where
  "is_digit c = (c \<in> set ''0123456789'')"

definition is_lower :: "char \<Rightarrow> bool" where
  "is_lower c = (c \<in> set ''abcdefghijklmnopqrstuvwxyz'')"

definition is_upper :: "char \<Rightarrow> bool" where
  "is_upper c = (c \<in> set ''ABCDEFGHIJKLMNOPQRSTUVWXYZ'')"

definition is_space :: "char \<Rightarrow> bool" where
  "is_space c = (c \<in> set [CHR '' '', CHR 0x09, CHR 0x0A, CHR 0x0B, CHR 0x0C, CHR 0x0D,
                          CHR 0x1C, CHR 0x1D, CHR 0x1E, CHR 0x1F])"

definition is_word :: "char \<Rightarrow> bool" where
  "is_word c = (is_digit c \<or> is_lower c \<or> is_upper c \<or> c = CHR ''_'')"

definition word_opt :: "char option \<Rightarrow> bool" where
  "word_opt c = (case c of None \<Rightarrow> False | Some x \<Rightarrow> is_word x)"

definition next_char :: "string \<Rightarrow> char option" where
  "next_char s = (case s of [] \<Rightarrow> None | c # _ \<Rightarrow> Some c)"

primrec star_iter :: "(mstate \<Rightarrow> mstate list) \<Rightarrow> nat \<Rightarrow> mstate \<Rightarrow> mstate list" where
  "star_iter f 0 st = [st]"
| "star_iter f (Suc n) st =
     concat (map (\<lambda>st'. if length (rest st') < length (rest st) then star_iter f n st' else [])
                 (f st)) @ [st]"

primrec rmatch :: "regex \<Rightarrow> mstate \<Rightarrow> mstate list" where
  "rmatch Eps st = [st]"
| "rmatch (Sym p) st =
     (case rest st of
        [] \<Rightarrow> []
      | c # cs \<Rightarrow> if p c then [st\<lparr>prev := Some c, rest := cs\<rparr>] else [])"
| "rmatch (Seq r1 r2) st = concat (map (rmatch r2) (rmatch r1 st))"
| "rmatch (Alt r1 r2) st = rmatch r1 st @ rmatch r2 st"
| "rmatch (Star r) st = star_iter (rmatch r) (length (rest st)) st"
| "rmatch (Grp n r) st =
     map (\<lambda>st'. st'\<lparr>groups := (n, take (length (rest st) - length (rest st')) (rest st)) # groups st'\<rparr>)
         (rmatch r st)"
| "rmatch WordB st = (if word_opt (prev st) \<noteq> word_opt (next_char (rest st)) then [st] else [])"
| "rmatch Eos st = (if rest st = [] \<or> rest st = [CHR 0x0A] then [st] else [])"

text \<open>\<^verbatim>\<open>re.search\<close>: the match object is the list of groups, group 0 the whole match.\<close>

fun search_from :: "regex \<Rightarrow> char option \<Rightarrow> string \<Rightarrow> mstate option" where
  "search_from r p s =
     (case rmatch (Grp 0 r) \<lparr>prev = p, rest = s, groups = []\<rparr> of
        st # _ \<Rightarrow> Some st
      | [] \<Rightarrow> (case s of [] \<Rightarrow> None | c # cs \<Rightarrow> search_from r (Some c) cs))"

definition re_search :: "regex \<Rightarrow> string \<Rightarrow> ((nat \<times> string) list) option" where
  "re_search r s = map_option groups (search_from r None s)"

definition group :: "(nat \<times> string) list \<Rightarrow> nat \<Rightarrow> string" where
  "group m n = (case map_of m n of None \<Rightarrow> [] | Some g \<Rightarrow> g)"

text \<open>
  \<^verbatim>\<open>re.findall\<close> for a pattern with no group that cannot match the empty string: the
  matches from left to right, each search starting where the last match ended. The fuel
  is the length of the text, which bounds the number of such matches.
\<close>

primrec findall_from :: "nat \<Rightarrow> regex \<Rightarrow> char option \<Rightarrow> string \<Rightarrow> string list" where
  "findall_from 0 r p s = []"
| "findall_from (Suc n) r p s =
     (case search_from r p s of
        None \<Rightarrow> []
      | Some st \<Rightarrow> group (groups st) 0 # findall_from n r (prev st) (rest st))"

definition re_findall :: "regex \<Rightarrow> string \<Rightarrow> string list" where
  "re_findall r s = findall_from (length s) r None s"

text \<open>The pattern language, as it is written in the source.\<close>

definition Lit :: "char \<Rightarrow> regex" where
  "Lit c = Sym (\<lambda>x. x = c)"

definition to_lower :: "char \<Rightarrow> char" where
  "to_lower c = (if is_upper c then char_of (of_char c + (32::nat)) else c)"

definition LitI :: "char \<Rightarrow> regex" where
  "LitI c = Sym (\<lambda>x. to_lower x = to_lower c)"

definition Cls :: "string \<Rightarrow> regex" where
  "Cls cs = Sym (\<lambda>x. x \<in> set cs)"

definition Digit :: regex where
  "Digit = Sym is_digit"

definition Space :: regex where
  "Space = Sym is_space"

definition Opt :: "regex \<Rightarrow> regex" where
  "Opt r = Alt r Eps"

definition Plus :: "regex \<Rightarrow> regex" where
  "Plus r = Seq r (Star r)"

definition Seqs :: "regex list \<Rightarrow> regex" where
  "Seqs rs = foldr Seq rs Eps"

definition Str :: "string \<Rightarrow> regex" where
  "Str s = Seqs (map Lit s)"

definition StrI :: "string \<Rightarrow> regex" where
  "StrI s = Seqs (map LitI s)"

subsection \<open>Strings and numbers of the Python library\<close>

definition lower :: "string \<Rightarrow> string" where
  "lower s = map to_lower s"

definition strip :: "string \<Rightarrow> string" where
  "strip s = rev (dropWhile is_space (rev (dropWhile is_space s)))"

definition startswith :: "string \<Rightarrow> string \<Rightarrow> bool" where
  "startswith s p = (take (length p) s = p)"

text \<open>\<^verbatim>\<open>sub in s\<close> on strings.\<close>

fun contains :: "string \<Rightarrow> string \<Rightarrow> bool" where
  "contains [] sub = (sub = [])"
| "contains (c # cs) sub = (startswith (c # cs) sub \<or> contains cs sub)"

definition replace_comma :: "string \<Rightarrow> string" where
  "replace_comma s = filter (\<lambda>c. c \<noteq> CHR '','') s"

definition digit_val :: "char \<Rightarrow> nat" where
  "digit_val c = of_char c - 48"

definition digits_val :: "string \<Rightarrow> nat" where
  "digits_val s = foldl (\<lambda>n c. 10 * n + digit_val c) 0 s"

text \<open>
  \<^verbatim>\<open>float(s)\<close> on the strings the program passes: an optional minus sign, digits, an
  optional point and digits, with a digit somewhere. Every other string is a ValueError
  here (the program passes no exponent, blank or \<^verbatim>\<open>inf\<close>).
\<close>

definition float_unsigned :: "string \<Rightarrow> py_error + rat" where
  "float_unsigned s =
     (let ip = takeWhile is_digit s; r = dropWhile is_digit s
      in case r of
           [] \<Rightarrow> if ip = [] then Inl ValueError else Inr (of_nat (digits_val ip))
         | c # fp \<Rightarrow>
             if c = CHR ''.'' \<and> list_all is_digit fp \<and> (ip \<noteq> [] \<or> fp \<noteq> [])
             then Inr (of_nat (digits_val ip) + of_nat (digits_val fp) / 10 ^ length fp)
             else Inl ValueError)"

definition py_float :: "string \<Rightarrow> py_error + rat" where
  "py_float s =
     (case s of
        [] \<Rightarrow> Inl ValueError
      | c # cs \<Rightarrow>
          if c = CHR ''-''
          then (case float_unsigned cs of Inl e \<Rightarrow> Inl e | Inr v \<Rightarrow> Inr (- v))
          else float_unsigned s)"

text \<open>\<^verbatim>\<open>round(x, 2)\<close>: to the nearest hundredth, a tie to the even neighbour.\<close>

definition round_half_even :: "rat \<Rightarrow> int" where
  "round_half_even x =
     (let f = \<lfloor>x\<rfloor>; d = x - of_int f
      in if d < 1 / 2 then f else if 1 / 2 < d then f + 1 else if even f then f else f + 1)"

definition round2 :: "rat \<Rightarrow> rat" where
  "round2 x = of_int (round_half_even (x * 100)) / 100"

text \<open>Truth value of an optional number: \<^verbatim>\<open>None\<close> and zero are false.\<close>

definition truthy :: "rat option \<Rightarrow> bool" where
  "truthy x = (case x of None \<Rightarrow> False | Some v \<Rightarrow> v \<noteq> 0)"

subsection \<open>\<^verbatim>\<open>get_num\<close>\<close>

text \<open>The pattern \<^verbatim>\<open>-?\d{1,3}(?:,\d{3})*(?:\.\d+)?|-?\d+(?:\.\d+)?\<close>.\<close>

definition NUM_RE :: regex where
  "NUM_RE =
     Alt (Seqs [Opt (Lit CHR ''-''),
                Seq Digit (Opt (Seq Digit (Opt Digit))),
                Star (Seqs [Lit CHR '','', Digit, Digit, Digit]),
                Opt (Seq (Lit CHR ''.'') (Plus Digit))])
         (Seqs [Opt (Lit CHR ''-''), Plus Digit, Opt (Seq (Lit CHR ''.'') (Plus Digit))])"

text \<open>The body of the \<^verbatim>\<open>try\<close>: searching \<^verbatim>\<open>None\<close> is a TypeError, \<^verbatim>\<open>m.group\<close> on no match an
  AttributeError.\<close>

definition get_num_body :: "string option \<Rightarrow> py_error + rat" where
  "get_num_body text =
     (case text of
        None \<Rightarrow> Inl TypeError
      | Some t \<Rightarrow>
          (case re_search NUM_RE t of
             None \<Rightarrow> Inl AttributeError
           | Some m \<Rightarrow> py_float (replace_comma (group m 0))))"

definition get_num :: "string option \<Rightarrow> py_error + rat option" where
  "get_num text = (case get_num_body text of Inl e \<Rightarrow> Inr None | Inr v \<Rightarrow> Inr (Some v))"

subsection \<open>\<^verbatim>\<open>apply_offer_discount\<close>\<close>

text \<open>The pattern \<^verbatim>\<open>\bBUY\s+(\d+)\s+FOR\s*\$?\s*([0-9]+(?:\.[0-9]{1,2})?)\b\<close>.\<close>

definition BUY_RE :: regex where
  "BUY_RE =
     Seqs [WordB, Str ''BUY'', Plus Space, Grp 1 (Plus Digit), Plus Space, Str ''FOR'',
           Star Space, Opt (Lit CHR ''$''), Star Space,
           Grp 2 (Seq (Plus Digit) (Opt (Seqs [Lit CHR ''.'', Digit, Opt Digit]))),
           WordB]"

text \<open>The comparison \<^verbatim>\<open>price_plain >= 600\<close> of the gift-card branch raises a TypeError on
  \<^verbatim>\<open>None\<close>.\<close>

definition gift_card_tier :: "rat option \<Rightarrow> py_error + rat option" where
  "gift_card_tier price_plain =
     (case price_plain of
        None \<Rightarrow> Inl TypeError
      | Some p \<Rightarrow>
          if p \<ge> 600 then Inr (Some (p - 150))
          else if p \<ge> 300 then Inr (Some (p - 50))
          else if p \<ge> 150 then Inr (Some (p - 20))
          else Inr None)"

definition buy_offer :: "string \<Rightarrow> py_error + rat option" where
  "buy_offer offer_text =
     (case re_search BUY_RE offer_text of
        None \<Rightarrow> Inr None
      | Some m_buy \<Rightarrow>
          (let qty = digits_val (group m_buy 1)
           in case py_float (group m_buy 2) of
                Inl e \<Rightarrow> Inl e
              | Inr total_amt \<Rightarrow> if qty > 0 then Inr (Some (round2 (total_amt / of_nat qty))) else Inr None))"

definition apply_offer_discount :: "rat option \<Rightarrow> rat option \<Rightarrow> string \<Rightarrow> py_error + rat option" where
  "apply_offer_discount price_plain price_now offer_text =
     (if offer_text = [] then Inr None
      else case get_num (Some offer_text) of
        Inl e \<Rightarrow> Inl e
      | Inr discount \<Rightarrow>
          if \<not> truthy discount then Inr None
          else let d = the discount in
            if startswith offer_text ''EXTRA'' \<and> CHR ''%'' \<in> set offer_text then
              (if truthy price_now then Inr (Some (round2 (the price_now * (1 - d / 100))))
               else if truthy price_plain then Inr (Some (round2 (the price_plain * (1 - d / 100))))
               else Inr None)
            else if startswith offer_text ''SAVE'' \<and> CHR ''%'' \<in> set offer_text then
              (if truthy price_plain then Inr (Some (round2 (the price_plain * (1 - d / 100))))
               else Inr None)
            else if startswith offer_text ''SAVE'' \<and> CHR ''$'' \<in> set offer_text then
              (if truthy price_plain then Inr (Some (round2 (the price_plain - d)))
               else Inr None)
            else if startswith offer_text ''BUY'' then buy_offer offer_text
            else if contains offer_text ''GIFT CARD'' then gift_card_tier price_plain
            else Inr None)"

subsection \<open>\<^verbatim>\<open>_tokens\<close> and \<^verbatim>\<open>_jaccard\<close>\<close>

text \<open>The pattern \<^verbatim>\<open>[a-z0-9]+\<close>. The title is always a \<^verbatim>\<open>str\<close> here, so the
  \<^verbatim>\<open>isinstance\<close> branch of \<^verbatim>\<open>_tokens\<close> has no counterpart. A Python set is a finite set.\<close>

definition TOKEN_RE :: regex where
  "TOKEN_RE = Plus (Sym (\<lambda>c. is_lower c \<or> is_digit c))"

definition tokens :: "string \<Rightarrow> string fset" where
  "tokens title_text = fset_of_list (re_findall TOKEN_RE (lower title_text))"

definition jaccard :: "'a fset \<Rightarrow> 'a fset \<Rightarrow> rat" where
  "jaccard a b =
     (if a = {||} \<or> b = {||} then 0
      else let inter = fcard (a |\<inter>| b); union = fcard (a |\<union>| b)
           in if union \<noteq> 0 then of_nat inter / of_nat union else 0)"

text \<open>The Jaccard index in the words of the specification: intersection size over union
  size, and 0 when either set is empty.\<close>

definition jaccard_index :: "'a fset \<Rightarrow> 'a fset \<Rightarrow> rat" where
  "jaccard_index a b =
     (if a = {||} \<or> b = {||} then 0 else of_nat (fcard (a |\<inter>| b)) / of_nat (fcard (a |\<union>| b)))"

subsection \<open>The outside world\<close>

text \<open>
  An anchor \<^verbatim>\<open>a.product-details\<close> of a listing page, by what the selectors of
  \<^verbatim>\<open>scrape_iconic\<close> read from it: the text of each span (\<^term>\<open>None\<close> when
  \<^verbatim>\<open>select_one\<close> finds none) and the \<^verbatim>\<open>href\<close> attribute.
\<close>

record anchor =
  price_final :: "string option"
  price_original :: "string option"
  brand_span :: "string option"
  name_span :: "string option"
  href :: "string option"

text \<open>
  A search result \<^verbatim>\<open>ul#products-grid > li\<close>, by what \<^verbatim>\<open>get_product_info\<close> reads from it.
  \<open>yotpo_widget\<close>: \<^term>\<open>None\<close> when there is no \<^verbatim>\<open>div.yotpo-widget-instance\<close>,
  \<^term>\<open>Some None\<close> when it has no \<^verbatim>\<open>data-yotpo-url\<close>. \<open>price_root\<close>: \<^term>\<open>None\<close> when
  there is no \<^verbatim>\<open>div.Price_root__y8UOm\<close>, \<^term>\<open>Some None\<close> when it has no accessibility
  span, else the text of that span.
\<close>

record item =
  brand_elem :: "string option"
  name_elem :: "string option"
  yotpo_widget :: "string option option"
  price_root :: "string option option"

text \<open>An entry of the special-offers answer: \<^verbatim>\<open>offer.get("id")\<close> and
  \<^verbatim>\<open>offer.get("shortDescription")\<close>, \<^term>\<open>None\<close> when the key is missing or no string.\<close>

record offer =
  offer_id :: "string option"
  shortDescription :: "string option"

record page =
  product_details :: "anchor list"
  products_grid :: "item list"

datatype body = Soup page | Json "offer list" | Other

datatype request = GET string | POST string "string list"

text \<open>
  \<open>http_request w n req\<close> is what the \<open>n\<close>-th call of \<^verbatim>\<open>http_request\<close> of a run (counted
  from 0) returns for \<open>req\<close>: the parsed body, or the exception it raises when its retries
  are used up. \<open>set_page_query\<close> stands for the URL-library lines of \<^verbatim>\<open>_turn_page\<close>
  (\<^verbatim>\<open>urlparse\<close>, \<^verbatim>\<open>parse_qsl\<close>, \<^verbatim>\<open>urlencode\<close>, \<^verbatim>\<open>urlunparse\<close>): the URL with its query
  parameter \<^verbatim>\<open>page\<close> set to the given text.
\<close>

record world =
  urljoin :: "string \<Rightarrow> string \<Rightarrow> string"
  quote :: "string \<Rightarrow> string"
  set_page_query :: "string \<Rightarrow> string \<Rightarrow> string"
  http_request :: "nat \<Rightarrow> request \<Rightarrow> py_error + body"

text \<open>\<^verbatim>\<open>soup.select\<close>: only a parsed markup tree has the method.\<close>

definition select_product_details :: "body \<Rightarrow> py_error + anchor list" where
  "select_product_details b = (case b of Soup p \<Rightarrow> Inr (product_details p) | _ \<Rightarrow> Inl AttributeError)"

definition select_products_grid :: "body \<Rightarrow> py_error + item list" where
  "select_products_grid b = (case b of Soup p \<Rightarrow> Inr (products_grid p) | _ \<Rightarrow> Inl AttributeError)"

definition text_or_empty :: "string option \<Rightarrow> string" where
  "text_or_empty t = (case t of None \<Rightarrow> [] | Some s \<Rightarrow> s)"

text \<open>\<^verbatim>\<open>[p for p in ps if p is not None]\<close>, \<^verbatim>\<open>min\<close> and \<^verbatim>\<open>max\<close> of a list (a ValueError on
  the empty list), and \<^verbatim>\<open>a or b\<close> on optional numbers.\<close>

definition not_none :: "rat option list \<Rightarrow> rat list" where
  "not_none ps = map the (filter (\<lambda>p. p \<noteq> None) ps)"

fun py_min :: "rat list \<Rightarrow> py_error + rat" where
  "py_min [] = Inl ValueError"
| "py_min (x # xs) = Inr (foldl (\<lambda>m y. if y < m then y else m) x xs)"

fun py_max :: "rat list \<Rightarrow> py_error + rat" where
  "py_max [] = Inl ValueError"
| "py_max (x # xs) = Inr (foldl (\<lambda>m y. if y > m then y else m) x xs)"

definition or_else :: "rat option \<Rightarrow> rat option \<Rightarrow> rat option" where
  "or_else a b = (if truthy a then a else b)"

fun str_nat :: "nat \<Rightarrow> string" where
  "str_nat n =
     (if n < 10 then [char_of (48 + n)] else str_nat (n div 10) @ [char_of (48 + n mod 10)])"

subsection \<open>\<^verbatim>\<open>_turn_page\<close> and \<^verbatim>\<open>scrape_iconic\<close>\<close>

definition turn_page :: "world \<Rightarrow> string \<Rightarrow> nat \<Rightarrow> string" where
  "turn_page w url page = (if page \<le> 1 then url else set_page_query w url (str_nat page))"

text \<open>A row of the table \<^verbatim>\<open>scrape_iconic\<close> returns: the keys \<^verbatim>\<open>title\<close>, \<^verbatim>\<open>price\<close>,
  \<^verbatim>\<open>was\<close>, \<^verbatim>\<open>diff\<close> and \<^verbatim>\<open>link\<close>.\<close>

record row =
  row_title :: string
  row_price :: rat
  row_was :: rat
  row_diff :: rat
  row_link :: string

text \<open>The body of \<^verbatim>\<open>for a in items\<close>: the rows it appends for one anchor.\<close>

definition scrape_anchor :: "world \<Rightarrow> rat \<Rightarrow> anchor \<Rightarrow> py_error + row list" where
  "scrape_anchor w threshold a =
     (case get_num (price_final a) of
        Inl e \<Rightarrow> Inl e
      | Inr price_final_num \<Rightarrow>
     (case get_num (price_original a) of
        Inl e \<Rightarrow> Inl e
      | Inr price_original_num \<Rightarrow>
          if truthy price_final_num \<and> truthy price_original_num then
            (let price_diff = the price_original_num - the price_final_num
             in if price_diff \<ge> threshold then
                  (let brand_text = strip (text_or_empty (brand_span a));
                       name = strip (text_or_empty (name_span a));
                       title = strip (brand_text @ '' '' @ name);
                       href_text = strip (text_or_empty (href a));
                       link = (if href_text \<noteq> [] then urljoin w ''https://www.theiconic.com.au'' href_text
                               else [])
                   in Inr [\<lparr>row_title = title, row_price = the price_final_num,
                            row_was = the price_original_num, row_diff = price_diff,
                            row_link = link\<rparr>])
                else Inr [])
          else Inr []))"

fun scrape_items :: "world \<Rightarrow> rat \<Rightarrow> anchor list \<Rightarrow> py_error + row list" where
  "scrape_items w threshold [] = Inr []"
| "scrape_items w threshold (a # items) =
     (case scrape_anchor w threshold a of
        Inl e \<Rightarrow> Inl e
      | Inr new_rows \<Rightarrow>
          (case scrape_items w threshold items of
             Inl e \<Rightarrow> Inl e
           | Inr more_rows \<Rightarrow> Inr (new_rows @ more_rows)))"

text \<open>
  The \<^verbatim>\<open>while True\<close> loop over the pages. It ends at the first page without anchors, so
  on a site that never serves one it does not end: the loop takes fuel, one unit a page,
  and \<^term>\<open>None\<close> is the run that has not returned within it. The request for page
  \<open>page\<close> is call number \<open>page - 1\<close> of the run.
\<close>

fun scrape_pages :: "nat \<Rightarrow> world \<Rightarrow> string \<Rightarrow> rat \<Rightarrow> nat \<Rightarrow> row list \<Rightarrow> (py_error + row list) option" where
  "scrape_pages 0 w start_url threshold page rows = None"
| "scrape_pages (Suc fuel) w start_url threshold page rows =
     (let url = turn_page w start_url page
      in case http_request w (page - 1) (GET url) of
           Inl e \<Rightarrow> Some (Inl e)
         | Inr soup \<Rightarrow>
             (case select_product_details soup of
                Inl e \<Rightarrow> Some (Inl e)
              | Inr items \<Rightarrow>
                  if items = [] then Some (Inr rows)
                  else (case scrape_items w threshold items of
                          Inl e \<Rightarrow> Some (Inl e)
                        | Inr new_rows \<Rightarrow>
                            scrape_pages fuel w start_url threshold (page + 1) (rows @ new_rows))))"

text \<open>\<^verbatim>\<open>sort_values("diff", ascending=False)\<close>. The order of equal keys, which the
  library leaves open, is the order of insertion here.\<close>

definition scrape_iconic :: "nat \<Rightarrow> world \<Rightarrow> string \<Rightarrow> rat \<Rightarrow> (py_error + row list) option" where
  "scrape_iconic fuel w brand threshold =
     (let start_url = ''https://www.theiconic.com.au/'' @ brand
      in case scrape_pages fuel w start_url threshold 1 [] of
           None \<Rightarrow> None
         | Some (Inl e) \<Rightarrow> Some (Inl e)
         | Some (Inr rows) \<Rightarrow> Some (Inr (sort_key (\<lambda>r. - row_diff r) rows)))"

subsection \<open>\<^verbatim>\<open>get_product_info\<close>\<close>

text \<open>The patterns \<^verbatim>\<open>-(\d+)(?:\?|$)\<close>, and, ignoring case, \<^verbatim>\<open>now\s+\$([0-9,]+\.?\d*)\<close>,
  \<^verbatim>\<open>was\s+\$([0-9,]+\.?\d*)\<close> and \<^verbatim>\<open>Price\s+\$([0-9,]+\.?\d*)\<close>.\<close>

definition ID_RE :: regex where
  "ID_RE = Seqs [Lit CHR ''-'', Grp 1 (Plus Digit), Alt (Lit CHR ''?'') Eos]"

definition AMOUNT :: regex where
  "AMOUNT = Grp 1 (Seqs [Plus (Cls ''0123456789,''), Opt (Lit CHR ''.''), Star Digit])"

definition NOW_RE :: regex where
  "NOW_RE = Seqs [StrI ''now'', Plus Space, Lit CHR ''$'', AMOUNT]"

definition WAS_RE :: regex where
  "WAS_RE = Seqs [StrI ''was'', Plus Space, Lit CHR ''$'', AMOUNT]"

definition PRICE_RE :: regex where
  "PRICE_RE = Seqs [StrI ''Price'', Plus Space, Lit CHR ''$'', AMOUNT]"

text \<open>\<^verbatim>\<open>float(m.group(1).replace(',', ''))\<close> when the pattern matches, \<^verbatim>\<open>None\<close> kept
  otherwise.\<close>

definition price_match :: "regex \<Rightarrow> string \<Rightarrow> py_error + rat option" where
  "price_match r text =
     (case re_search r text of
        None \<Rightarrow> Inr None
      | Some m \<Rightarrow>
          (case py_float (replace_comma (group m 1)) of
             Inl e \<Rightarrow> Inl e
           | Inr v \<Rightarrow> Inr (Some v)))"

text \<open>The block \<^verbatim>\<open>if accessibility_text:\<close>: the pair \<^verbatim>\<open>(price_plain, price_now)\<close>.\<close>

definition accessibility_prices :: "string option \<Rightarrow> py_error + rat option \<times> rat option" where
  "accessibility_prices accessibility_text =
     (case accessibility_text of
        None \<Rightarrow> Inr (None, None)
      | Some text \<Rightarrow>
          if contains (lower text) ''it was'' then
            (case price_match NOW_RE text of
               Inl e \<Rightarrow> Inl e
             | Inr price_now \<Rightarrow>
                 (case price_match WAS_RE text of
                    Inl e \<Rightarrow> Inl e
                  | Inr price_plain \<Rightarrow> Inr (price_plain, price_now)))
          else
            (case price_match PRICE_RE text of
               Inl e \<Rightarrow> Inl e
             | Inr price_plain \<Rightarrow> Inr (price_plain, None)))"

text \<open>\<^verbatim>\<open>min(candidates) if candidates else None\<close>, and the same with \<^verbatim>\<open>max\<close>.\<close>

definition min_or_none :: "rat list \<Rightarrow> rat option" where
  "min_or_none candidates =
     (if candidates \<noteq> [] then (case py_min candidates of Inl e \<Rightarrow> None | Inr v \<Rightarrow> Some v) else None)"

definition max_or_none :: "rat list \<Rightarrow> rat option" where
  "max_or_none candidates =
     (if candidates \<noteq> [] then (case py_max candidates of Inl e \<Rightarrow> None | Inr v \<Rightarrow> Some v) else None)"

definition get_product_info ::
  "world \<Rightarrow> item \<Rightarrow> py_error + string \<times> rat option \<times> rat option \<times> string \<times> string" where
  "get_product_info w it =
     (let brand = text_or_empty (brand_elem it);
          name = text_or_empty (name_elem it);
          title = strip (brand @ '' '' @ name)
      in case yotpo_widget it of
           None \<Rightarrow> Inl TypeError
         | Some None \<Rightarrow> Inl KeyError
         | Some (Some yotpo_url) \<Rightarrow>
             (let link = urljoin w ''https://www.davidjones.com'' yotpo_url
              in case re_search ID_RE link of
                   None \<Rightarrow> Inl AttributeError
                 | Some id_match \<Rightarrow>
                     (let product_id = group id_match 1
                      in case price_root it of
                           None \<Rightarrow> Inl AttributeError
                         | Some accessibility_text \<Rightarrow>
                             (case accessibility_prices accessibility_text of
                                Inl e \<Rightarrow> Inl e
                              | Inr (price_plain, price_now) \<Rightarrow>
                                  (let candidates = not_none [price_plain, price_now]
                                   in Inr (title, min_or_none candidates, max_or_none candidates,
                                           link, product_id))))))"

subsection \<open>\<^verbatim>\<open>compare_search\<close>\<close>

text \<open>An entry of the result table, by its keys.\<close>

record comparison =
  title_dj :: string
  title_pm :: string
  price_diff :: rat
  price_dj :: rat
  price_pm :: rat
  link_dj :: string
  link_pm :: string

text \<open>The loop \<^verbatim>\<open>for offer in offers_data\<close> with its \<^verbatim>\<open>break\<close>: the description of the
  first offer whose id is the product's, the empty text when there is none.\<close>

fun find_offer :: "offer list \<Rightarrow> string \<Rightarrow> string" where
  "find_offer [] product_id = []"
| "find_offer (off # offers_data) product_id =
     (if offer_id off = Some product_id then text_or_empty (shortDescription off)
      else find_offer offers_data product_id)"

text \<open>
  The \<^verbatim>\<open>try\<close> block around the special-offers request: the pair \<^verbatim>\<open>(price, was)\<close> after it.
  Both are assigned in its last two lines only, so an exception anywhere in the block
  (the request, the answer's shape, \<^verbatim>\<open>apply_offer_discount\<close>) leaves them as they
  were. An answer that is no JSON list of objects counts as such an exception.
\<close>

definition offer_prices ::
  "world \<Rightarrow> nat \<Rightarrow> string \<Rightarrow> rat option \<Rightarrow> rat option \<Rightarrow> rat option \<times> rat option" where
  "offer_prices w n product_id price was =
     (case http_request w n (POST ''https://www.davidjones.com/routes/special-offers'' [product_id]) of
        Inl e \<Rightarrow> (price, was)
      | Inr (Json offers_data) \<Rightarrow>
          (let offer_text = find_offer offers_data product_id
           in if offer_text \<noteq> [] then
                (case apply_offer_discount (or_else was price) price offer_text of
                   Inl e \<Rightarrow> (price, was)
                 | Inr price_offer \<Rightarrow>
                     if truthy price_offer then
                       (let candidates = not_none [or_else was price, price, price_offer]
                        in case py_min candidates of
                             Inl e \<Rightarrow> (price, was)
                           | Inr lo \<Rightarrow>
                               (case py_max candidates of
                                  Inl e \<Rightarrow> (price, was)
                                | Inr hi \<Rightarrow> (Some lo, Some hi)))
                     else (price, was))
              else (price, was))
      | Inr _ \<Rightarrow> (price, was))"

text \<open>
  One round of \<^verbatim>\<open>for idx, i in enumerate(pms, 1)\<close>. The state is the number of requests
  made so far, the variable \<^verbatim>\<open>soup\<close> (\<^term>\<open>None\<close> while it is unbound) and the list
  \<^verbatim>\<open>matches\<close>. The \<^verbatim>\<open>except\<close> branch of the search request leaves \<^verbatim>\<open>soup\<close> as it was
  and goes on to \<^verbatim>\<open>soup.select\<close>.
\<close>

definition compare_one ::
  "world \<Rightarrow> rat \<Rightarrow> nat \<times> body option \<times> comparison list \<Rightarrow> row \<Rightarrow>
   py_error + nat \<times> body option \<times> comparison list" where
  "compare_one w sim_thresh st i =
     (case st of (n, soup_before, matches) \<Rightarrow>
        (let title_i = row_title i;
             search_url = ''https://www.davidjones.com/search?q='' @ quote w title_i;
             soup = (case http_request w n (GET search_url) of
                       Inl e \<Rightarrow> soup_before
                     | Inr b \<Rightarrow> Some b)
         in case soup of
              None \<Rightarrow> Inl UnboundLocalError
            | Some b \<Rightarrow>
                (case select_products_grid b of
                   Inl e \<Rightarrow> Inl e
                 | Inr [] \<Rightarrow> Inr (n + 1, soup, matches)
                 | Inr (it # _) \<Rightarrow>
                     (case get_product_info w it of
                        Inl e \<Rightarrow> Inl e
                      | Inr (title, price0, was0, link, product_id) \<Rightarrow>
                          (case offer_prices w (n + 1) product_id price0 was0 of
                             (price, was) \<Rightarrow>
                               if was = Some (row_was i)
                                  \<and> jaccard (tokens title) (tokens title_i) \<ge> sim_thresh
                               then
                                 (case price of
                                    None \<Rightarrow> Inl TypeError
                                  | Some p \<Rightarrow>
                                      (let diff_i = p - row_price i
                                       in Inr (n + 2, soup,
                                               if diff_i > 100
                                               then matches @
                                                    [\<lparr>title_dj = title, title_pm = title_i,
                                                      price_diff = diff_i, price_dj = p,
                                                      price_pm = row_price i, link_dj = link,
                                                      link_pm = row_link i\<rparr>]
                                               else matches)))
                               else Inr (n + 2, soup, matches))))))"

fun compare_loop ::
  "world \<Rightarrow> rat \<Rightarrow> nat \<times> body option \<times> comparison list \<Rightarrow> row list \<Rightarrow>
   py_error + comparison list" where
  "compare_loop w sim_thresh st [] = Inr (snd (snd st))"
| "compare_loop w sim_thresh st (i # pms) =
     (case compare_one w sim_thresh st i of
        Inl e \<Rightarrow> Inl e
      | Inr st' \<Rightarrow> compare_loop w sim_thresh st' pms)"

definition compare_search :: "world \<Rightarrow> row list \<Rightarrow> rat \<Rightarrow> py_error + comparison list" where
  "compare_search w pm sim_thresh =
     (case compare_loop w sim_thresh (0, None, []) pm of
        Inl e \<Rightarrow> Inl e
      | Inr matches \<Rightarrow> Inr (sort_key (\<lambda>m. - price_diff m) matches))"


subsection \<open>Sample worlds\<close>

text \<open>
  The library functions on the inputs of the samples: \<^verbatim>\<open>urljoin\<close> of a base without
  path and a reference that starts with a slash, \<^verbatim>\<open>quote\<close> of letters, digits and
  blanks, and the query \<^verbatim>\<open>page\<close> added to a URL without query.
\<close>

definition urljoin_path :: "string \<Rightarrow> string \<Rightarrow> string" where
  "urljoin_path base ref = base @ ref"

definition quote_blank :: "string \<Rightarrow> string" where
  "quote_blank s = concat (map (\<lambda>c. if c = CHR '' '' then ''%20'' else [c]) s)"

definition page_query :: "string \<Rightarrow> string \<Rightarrow> string" where
  "page_query url p = url @ ''?page='' @ p"

definition sample_world :: "(nat \<Rightarrow> request \<Rightarrow> py_error + body) \<Rightarrow> world" where
  "sample_world http =
     \<lparr>urljoin = urljoin_path, quote = quote_blank, set_page_query = page_query,
      http_request = http\<rparr>"

text \<open>A search result with a product number in its link, one without, and a world in
  which every request fails.\<close>

definition dress_item :: "string \<Rightarrow> string \<Rightarrow> item" where
  "dress_item url price_text =
     \<lparr>brand_elem = Some ''Acme'', name_elem = Some ''Red Dress'',
      yotpo_widget = Some (Some url), price_root = Some (Some price_text)\<rparr>"

definition offline :: world where
  "offline = sample_world (\<lambda>n req. Inl RuntimeError)"

text \<open>
  A listing of two pages and then an empty one: on the first page an anchor 250 below
  its original price, one 10 below and one without a final price, on the second page one
  490 below. And a listing of one page whose only anchor is priced 20 above its original
  price.
\<close>

definition boots_anchor :: "string option \<Rightarrow> string option \<Rightarrow> anchor" where
  "boots_anchor final original =
     \<lparr>price_final = final, price_original = original, brand_span = Some ''Acme'',
      name_span = Some ''Boots'', href = Some ''/acme-boots-1''\<rparr>"

definition listing :: "anchor list \<Rightarrow> py_error + body" where
  "listing items = Inr (Soup \<lparr>product_details = items, products_grid = []\<rparr>)"

definition sale_site :: world where
  "sale_site =
     sample_world (\<lambda>n req.
       if req = GET ''https://www.theiconic.com.au/womens-sale'' then
         listing [boots_anchor (Some ''$100.00'') (Some ''$350.00''),
                  boots_anchor (Some ''$50.00'') (Some ''$60.00''),
                  boots_anchor None (Some ''$900.00'')]
       else if req = GET ''https://www.theiconic.com.au/womens-sale?page=2'' then
         listing [boots_anchor (Some ''$10.00'') (Some ''$500.00'')]
       else listing [])"

definition markup_site :: world where
  "markup_site =
     sample_world (\<lambda>n req.
       if req = GET ''https://www.theiconic.com.au/womens-sale'' then
         listing [boots_anchor (Some ''$100.00'') (Some ''$80.00'')]
       else listing [])"

subsection \<open>The price pair in the words of the specification\<close>

text \<open>The minimum and the maximum of whatever values were found: none, one or two.\<close>

definition min_found :: "rat option \<Rightarrow> rat option \<Rightarrow> rat option" where
  "min_found a b =
     (case a of
        None \<Rightarrow> b
      | Some x \<Rightarrow> (case b of None \<Rightarrow> Some x | Some y \<Rightarrow> Some (min x y)))"

definition max_found :: "rat option \<Rightarrow> rat option \<Rightarrow> rat option" where
  "max_found a b =
     (case a of
        None \<Rightarrow> b
      | Some x \<Rightarrow> (case b of None \<Rightarrow> Some x | Some y \<Rightarrow> Some (max x y)))"

text \<open>
  A candidate from the listing, and a search site whose every search answers with the
  one product Acme Red Dress, now 220, was 443, number 12345, and whose special-offers
  route answers with the given offers. The flaky site is the same, except that the
  third request of a run fails.
\<close>

definition dress_row :: "string \<Rightarrow> rat \<Rightarrow> rat \<Rightarrow> row" where
  "dress_row t p v =
     \<lparr>row_title = t, row_price = p, row_was = v, row_diff = v - p,
      row_link = ''https://www.theiconic.com.au/acme-red-dress-1''\<rparr>"

definition dj_answer :: "offer list \<Rightarrow> request \<Rightarrow> py_error + body" where
  "dj_answer offers req =
     (case req of
        GET url \<Rightarrow>
          Inr (Soup \<lparr>product_details = [],
                     products_grid = [dress_item ''/product/acme-red-dress-12345''
                                        ''Price is now $220.00, it was $443.00'']\<rparr>)
      | POST url ids \<Rightarrow> Inr (Json offers))"


definition flaky_site :: world where
  "flaky_site = sample_world (\<lambda>n req. if n = 2 then Inl RuntimeError else dj_answer [] req)"

subsection \<open>The acceptance gate in the words of the specification\<close>


section \<open>Properties\<close>

declare search_from.simps [simp del]

subsection \<open>The number extractor\<close>

lemma rmatch_num_no_digit:
  assumes "\<forall>c\<in>set s. \<not> is_digit c"
  shows "rmatch (Grp 0 NUM_RE) \<lparr>prev = p, rest = s, groups = []\<rparr> = []"
proof (cases s)
  case Nil
  then show ?thesis
    by (simp add: NUM_RE_def Seqs_def Opt_def Plus_def Lit_def Digit_def)
next
  case (Cons c cs)
  with assms have c: "\<not> is_digit c" and cs: "\<forall>x\<in>set cs. \<not> is_digit x" by auto
  show ?thesis
  proof (cases cs)
    case Nil
    with Cons c show ?thesis
      by (simp add: NUM_RE_def Seqs_def Opt_def Plus_def Lit_def Digit_def)
  next
    case (Cons d ds)
    with cs have "\<not> is_digit d" by simp
    with Cons \<open>s = c # cs\<close> c show ?thesis
      by (simp add: NUM_RE_def Seqs_def Opt_def Plus_def Lit_def Digit_def)
  qed
qed

lemma search_num_no_digit:
  "\<forall>c\<in>set s. \<not> is_digit c \<Longrightarrow> search_from NUM_RE p s = None"
proof (induction s arbitrary: p)
  case Nil
  show ?case using rmatch_num_no_digit[of "[]" p] by (simp add: search_from.simps)
next
  case (Cons c cs)
  have "rmatch (Grp 0 NUM_RE) \<lparr>prev = p, rest = c # cs, groups = []\<rparr> = []"
    using Cons.prems by (rule rmatch_num_no_digit)
  moreover have "search_from NUM_RE (Some c) cs = None"
    using Cons by simp
  ultimately show ?case by (simp add: search_from.simps [of _ _ "c # cs"])
qed

lemma get_num_no_digit: "\<forall>c\<in>set s. \<not> is_digit c \<Longrightarrow> get_num (Some s) = Inr None"
  by (simp add: get_num_def get_num_body_def re_search_def search_num_no_digit)

lemma get_num_returns: "\<exists>r. get_num text = Inr r"
  by (simp add: get_num_def split: sum.split)

lemma scrape_anchor_no_final:
  "price_final a = None \<Longrightarrow> scrape_anchor w threshold a = Inr []"
  by (simp add: scrape_anchor_def get_num_def get_num_body_def truthy_def split: sum.split)

lemma scrape_anchor_no_original:
  "price_original a = None \<Longrightarrow> scrape_anchor w threshold a = Inr []"
  by (simp add: scrape_anchor_def get_num_def get_num_body_def truthy_def split: sum.split)

text \<open>
  Claim C10. \<^verbatim>\<open>get_num\<close> returns on every input and never raises: on \<^verbatim>\<open>None\<close> and on a
  text without a digit it returns \<^verbatim>\<open>None\<close>, and on every other input a number or
  \<^verbatim>\<open>None\<close>. The listing scraper passes \<^verbatim>\<open>None\<close> for a price element that is missing, and
  then appends no row.
\<close>

theorem get_num_total:
  "(\<exists>r. get_num text = Inr r)
   \<and> get_num None = Inr None
   \<and> ((\<forall>c\<in>set s. \<not> is_digit c) \<longrightarrow> get_num (Some s) = Inr None)
   \<and> get_num (Some ''no numbers here'') = Inr None
   \<and> (price_final a = None \<or> price_original a = None \<longrightarrow> scrape_anchor w threshold a = Inr [])"
proof -
  have "get_num None = Inr None"
    by (simp add: get_num_def get_num_body_def)
  moreover have "get_num (Some ''no numbers here'') = Inr None"
    by (rule get_num_no_digit) (simp add: is_digit_def)
  ultimately show ?thesis
    using get_num_returns [of "text"] get_num_no_digit [of s]
      scrape_anchor_no_final [of a w threshold] scrape_anchor_no_original [of a w threshold]
    by blast
qed

theorem get_num_total_witness:
  "\<not> is_digit CHR ''n'' \<and> \<not> is_digit CHR ''/'' \<and> \<not> is_digit CHR ''a''
   \<and> get_num (Some ''n/a'') = Inr None
   \<and> price_final \<lparr>price_final = None, price_original = Some ''$80.00'', brand_span = None,
                  name_span = None, href = None\<rparr> = None
   \<and> scrape_anchor (sample_world (\<lambda>n req. Inl RuntimeError)) 0
        \<lparr>price_final = None, price_original = Some ''$80.00'', brand_span = None,
         name_span = None, href = None\<rparr> = Inr []"
proof -
  have h: "\<forall>c\<in>set ''n/a''. \<not> is_digit c"
    by (simp add: is_digit_def)
  show ?thesis
    using h get_num_total [of None "''n/a''"
        "\<lparr>price_final = None, price_original = Some ''$80.00'', brand_span = None,
          name_span = None, href = None\<rparr>"
        "sample_world (\<lambda>n req. Inl RuntimeError)" 0]
    by simp
qed

subsection \<open>The offer evaluator\<close>


lemma gift_card_branch:
  assumes "contains offer_text ''GIFT CARD''" "\<not> startswith offer_text ''EXTRA''"
    "\<not> startswith offer_text ''SAVE''" "\<not> startswith offer_text ''BUY''"
    "get_num (Some offer_text) = Inr (Some d)" "d \<noteq> 0"
  shows "apply_offer_discount (Some p) price_now offer_text =
    Inr (if p \<ge> 600 then Some (p - 150) else if p \<ge> 300 then Some (p - 50)
         else if p \<ge> 150 then Some (p - 20) else None)"
proof -
  from assms(1) have "offer_text \<noteq> []"
    by (cases offer_text) (auto simp: startswith_def)
  with assms show ?thesis
    by (simp add: apply_offer_discount_def truthy_def gift_card_tier_def)
qed

lemma no_number_no_offer:
  "get_num (Some t) = Inr None \<Longrightarrow> apply_offer_discount price_plain price_now t = Inr None"
  by (simp add: apply_offer_discount_def truthy_def)

text \<open>
  Claim C1, as stated, fails: GIFT CARD OFFER contains GIFT CARD and starts with none of
  the keywords, but it holds no number, so the guard on the extracted number returns
  \<^verbatim>\<open>None\<close> before the gift-card rule is reached; the result is not 550.
\<close>

theorem gift_card_offer_counterexample:
  "contains ''GIFT CARD OFFER'' ''GIFT CARD''
   \<and> \<not> startswith ''GIFT CARD OFFER'' ''EXTRA''
   \<and> \<not> startswith ''GIFT CARD OFFER'' ''SAVE''
   \<and> \<not> startswith ''GIFT CARD OFFER'' ''BUY''
   \<and> apply_offer_discount (Some 700) None ''GIFT CARD OFFER'' = Inr None"
  by code_simp

text \<open>
  Claim C1, amended. For every offer text that contains GIFT CARD, starts with none of
  EXTRA, SAVE and BUY, and from which \<^verbatim>\<open>get_num\<close> extracts a number other than zero, and
  for every plain price that is present, \<^verbatim>\<open>apply_offer_discount\<close> takes the tiered flat
  amount off the plain price: 150 from 600 on, 50 from 300 on, 20 from 150 on, and
  \<^verbatim>\<open>None\<close> below 150. An offer text with no number to extract gives \<^verbatim>\<open>None\<close>.
\<close>

theorem gift_card_tiers:
  "(contains offer_text ''GIFT CARD'' \<and> \<not> startswith offer_text ''EXTRA''
      \<and> \<not> startswith offer_text ''SAVE'' \<and> \<not> startswith offer_text ''BUY''
      \<and> get_num (Some offer_text) = Inr (Some d) \<and> d \<noteq> 0
    \<longrightarrow> apply_offer_discount (Some p) price_now offer_text =
        Inr (if p \<ge> 600 then Some (p - 150) else if p \<ge> 300 then Some (p - 50)
             else if p \<ge> 150 then Some (p - 20) else None))
   \<and> (get_num (Some t) = Inr None \<longrightarrow> apply_offer_discount price_plain price_now t = Inr None)"
  using gift_card_branch [of offer_text d p price_now]
    no_number_no_offer [of t price_plain price_now]
  by blast

theorem gift_card_tiers_witness:
  "contains ''$150 GIFT CARD'' ''GIFT CARD'' \<and> \<not> startswith ''$150 GIFT CARD'' ''EXTRA''
   \<and> \<not> startswith ''$150 GIFT CARD'' ''SAVE'' \<and> \<not> startswith ''$150 GIFT CARD'' ''BUY''
   \<and> get_num (Some ''$150 GIFT CARD'') = Inr (Some 150) \<and> (150::rat) \<noteq> 0
   \<and> apply_offer_discount (Some 700) None ''$150 GIFT CARD'' = Inr (Some 550)
   \<and> get_num (Some ''GIFT CARD OFFER'') = Inr None
   \<and> apply_offer_discount (Some 700) None ''GIFT CARD OFFER'' = Inr None"
proof -
  have h1: "contains ''$150 GIFT CARD'' ''GIFT CARD'' \<and> \<not> startswith ''$150 GIFT CARD'' ''EXTRA''
      \<and> \<not> startswith ''$150 GIFT CARD'' ''SAVE'' \<and> \<not> startswith ''$150 GIFT CARD'' ''BUY''"
    by code_simp
  have h2: "get_num (Some ''$150 GIFT CARD'') = Inr (Some 150)"
    by code_simp
  have h3: "get_num (Some ''GIFT CARD OFFER'') = Inr None"
    by code_simp
  show ?thesis
    using h1 h2 h3
      gift_card_tiers [of "''$150 GIFT CARD''" 150 700 None "''GIFT CARD OFFER''" "Some 700"]
    by simp
qed

subsection \<open>Similarity\<close>

lemma jaccard_is_index: "jaccard a b = jaccard_index a b"
  by (auto simp: jaccard_def jaccard_index_def Let_def)

lemma jaccard_commute: "jaccard a b = jaccard b a"
  by (auto simp: jaccard_def Let_def inf_commute sup_commute)

lemma jaccard_empty: "a = {||} \<or> b = {||} \<Longrightarrow> jaccard a b = 0"
  by (auto simp: jaccard_def)

lemma jaccard_red_dress:
  "jaccard {|''red'', ''dress''|} {|''red'', ''dress'', ''silk''|} = 2 / 3"
  by code_simp

text \<open>
  Claim C6. For all token sets \<open>a\<close> and \<open>b\<close>, \<^verbatim>\<open>_jaccard\<close> is the Jaccard index, the size
  of the intersection over the size of the union; it is symmetric; it is 0 when either
  set is empty; and on the sets red, dress and red, dress, silk it is 2/3.
\<close>

theorem jaccard_correct:
  "jaccard a b = jaccard_index a b
   \<and> (a \<noteq> {||} \<and> b \<noteq> {||} \<longrightarrow>
        jaccard a b = of_nat (fcard (a |\<inter>| b)) / of_nat (fcard (a |\<union>| b)))
   \<and> jaccard a b = jaccard b a
   \<and> (a = {||} \<or> b = {||} \<longrightarrow> jaccard a b = 0)
   \<and> jaccard {|''red'', ''dress''|} {|''red'', ''dress'', ''silk''|} = 2 / 3"
  using jaccard_is_index [of a b] jaccard_commute [of a b] jaccard_empty [of a b]
    jaccard_red_dress
  by (auto simp: jaccard_index_def)

theorem jaccard_correct_witness:
  "({||} :: string fset) = {||} \<and> jaccard {||} {|''a''|} = 0
   \<and> jaccard {|''a''|} {||} = 0
   \<and> {|''a''|} \<noteq> {||} \<and> {|''a'', ''b''|} \<noteq> {||}
   \<and> jaccard {|''a''|} {|''a'', ''b''|} = 1 / 2"
proof -
  have "fcard ({|''a''|} |\<inter>| {|''a'', ''b''|}) = 1"
    by code_simp
  moreover have "fcard ({|''a''|} |\<union>| {|''a'', ''b''|}) = 2"
    by code_simp
  ultimately show ?thesis
    using jaccard_correct [of "{||}" "{|''a''|}"] jaccard_correct [of "{|''a''|}" "{|''a'', ''b''|}"]
    by simp
qed

subsection \<open>The product detail extractor\<close>

lemma min_or_none_found: "min_or_none (not_none [a, b]) = min_found a b"
  by (cases a; cases b) (auto simp: min_or_none_def not_none_def min_found_def min_def)

lemma max_or_none_found: "max_or_none (not_none [a, b]) = max_found a b"
  by (cases a; cases b) (auto simp: max_or_none_def not_none_def max_found_def max_def)



lemma get_product_info_returns:
  assumes "yotpo_widget it = Some (Some u)"
    "re_search ID_RE (urljoin w ''https://www.davidjones.com'' u) = Some m"
    "price_root it = Some acc" "accessibility_prices acc = Inr (plain, now)"
  shows "get_product_info w it =
    Inr (strip (text_or_empty (brand_elem it) @ '' '' @ text_or_empty (name_elem it)),
         min_found plain now, max_found plain now,
         urljoin w ''https://www.davidjones.com'' u, group m 1)"
  using assms
  by (simp add: get_product_info_def Let_def min_or_none_found max_or_none_found)


lemma get_product_info_no_id:
  "yotpo_widget it = Some (Some u) \<Longrightarrow>
   re_search ID_RE (urljoin w ''https://www.davidjones.com'' u) = None \<Longrightarrow>
   get_product_info w it = Inl AttributeError"
  by (simp add: get_product_info_def Let_def)








text \<open>
  Claim C3 does not hold of the code. For a search result whose link has no trailing
  number, \<^verbatim>\<open>re.search\<close> finds nothing and \<^verbatim>\<open>id_match.group(1)\<close> raises an
  AttributeError: \<^verbatim>\<open>get_product_info\<close> does not return, and the product number is not
  represented as absent. The same result with a number in its link is returned.
\<close>

theorem get_product_info_no_id_raises:
  "get_product_info offline
     (dress_item ''/product/acme-red-dress'' ''Price is now $220.00, it was $443.00'')
   = Inl AttributeError
   \<and> re_search ID_RE ''https://www.davidjones.com/product/acme-red-dress'' = None
   \<and> get_product_info offline
        (dress_item ''/product/acme-red-dress-12345'' ''Price is now $220.00, it was $443.00'')
      = Inr (''Acme Red Dress'', Some 220, Some 443,
             ''https://www.davidjones.com/product/acme-red-dress-12345'', ''12345'')"
  by code_simp

subsection \<open>The listing scraper\<close>

lemma scrape_anchor_rows:
  assumes "scrape_anchor w t a = Inr rs" "r \<in> set rs"
  shows "get_num (price_final a) = Inr (Some (row_price r))
     \<and> get_num (price_original a) = Inr (Some (row_was r))
     \<and> row_price r \<noteq> 0 \<and> row_was r \<noteq> 0
     \<and> row_diff r = row_was r - row_price r \<and> t \<le> row_diff r"
  using assms
  by (auto simp: scrape_anchor_def Let_def truthy_def split: sum.splits if_splits option.splits)

lemma scrape_items_rows:
  "scrape_items w t items = Inr rs \<Longrightarrow> r \<in> set rs \<Longrightarrow>
   \<exists>a\<in>set items. \<exists>rs'. scrape_anchor w t a = Inr rs' \<and> r \<in> set rs'"
proof (induction items arbitrary: rs)
  case Nil
  then show ?case by simp
next
  case (Cons a items)
  then show ?case
    by (auto split: sum.splits)
qed

lemma scrape_pages_rows:
  "scrape_pages fuel w url t page rows = Some (Inr out) \<Longrightarrow> r \<in> set out \<Longrightarrow>
   r \<in> set rows \<or> (\<exists>a rs'. scrape_anchor w t a = Inr rs' \<and> r \<in> set rs')"
proof (induction fuel arbitrary: page rows)
  case 0
  then show ?case by simp
next
  case (Suc fuel)
  show ?case
  proof (cases "http_request w (page - 1) (GET (turn_page w url page))")
    case (Inl e)
    with Suc.prems show ?thesis by simp
  next
    case (Inr soup)
    show ?thesis
    proof (cases "select_product_details soup")
      case (Inl e)
      with Inr Suc.prems show ?thesis by simp
    next
      case items: (Inr items)
      show ?thesis
      proof (cases "items = []")
        case True
        with Inr items Suc.prems show ?thesis by simp
      next
        case False
        show ?thesis
        proof (cases "scrape_items w t items")
          case (Inl e)
          with Inr items False Suc.prems show ?thesis by simp
        next
          case new: (Inr new_rows)
          with Inr items False Suc.prems
          have "scrape_pages fuel w url t (page + 1) (rows @ new_rows) = Some (Inr out)"
            by simp
          from Suc.IH [OF this Suc.prems(2)]
          show ?thesis
            using scrape_items_rows [OF new] by auto
        qed
      qed
    qed
  qed
qed

lemma scrape_iconic_rows:
  assumes "scrape_iconic fuel w brand t = Some (Inr df)" "r \<in> set df"
  shows "\<exists>a rs'. scrape_anchor w t a = Inr rs' \<and> r \<in> set rs'"
proof -
  from assms(1) obtain rows where
    p: "scrape_pages fuel w (''https://www.theiconic.com.au/'' @ brand) t 1 [] = Some (Inr rows)"
    and df: "df = sort_key (\<lambda>r. - row_diff r) rows"
    by (auto simp: scrape_iconic_def Let_def split: option.splits sum.splits)
  from df assms(2) have "r \<in> set rows" by simp
  with scrape_pages_rows [OF p] show ?thesis by auto
qed

lemma scrape_iconic_sorted:
  assumes "scrape_iconic fuel w brand t = Some (Inr df)"
  shows "sorted_wrt (\<lambda>r s. row_diff s \<le> row_diff r) df"
proof -
  from assms obtain rows where df: "df = sort_key (\<lambda>r. - row_diff r) rows"
    by (auto simp: scrape_iconic_def Let_def split: option.splits sum.splits)
  have "sorted (map (\<lambda>r. - row_diff r) df)"
    unfolding df by (rule sorted_sort_key)
  then show ?thesis
    by (simp add: sorted_map)
qed

lemma sale_site_200:
  "scrape_iconic 5 sale_site ''womens-sale'' 200 =
   Some (Inr [\<lparr>row_title = ''Acme Boots'', row_price = 10, row_was = 500, row_diff = 490,
                row_link = ''https://www.theiconic.com.au/acme-boots-1''\<rparr>,
              \<lparr>row_title = ''Acme Boots'', row_price = 100, row_was = 350, row_diff = 250,
                row_link = ''https://www.theiconic.com.au/acme-boots-1''\<rparr>])"
  by code_simp

lemma sale_site_0:
  "scrape_iconic 5 sale_site ''womens-sale'' 0 =
   Some (Inr [\<lparr>row_title = ''Acme Boots'', row_price = 10, row_was = 500, row_diff = 490,
                row_link = ''https://www.theiconic.com.au/acme-boots-1''\<rparr>,
              \<lparr>row_title = ''Acme Boots'', row_price = 100, row_was = 350, row_diff = 250,
                row_link = ''https://www.theiconic.com.au/acme-boots-1''\<rparr>,
              \<lparr>row_title = ''Acme Boots'', row_price = 50, row_was = 60, row_diff = 10,
                row_link = ''https://www.theiconic.com.au/acme-boots-1''\<rparr>])"
  by code_simp

text \<open>
  Claim C7. Every row of the table \<^verbatim>\<open>scrape_iconic\<close> returns has both prices present (each
  is the number \<^verbatim>\<open>get_num\<close> extracts from a price text of an anchor, and is not zero), its
  \<^verbatim>\<open>diff\<close> is \<^verbatim>\<open>was - price\<close> and is at least the threshold, and the rows are in
  descending order of \<^verbatim>\<open>diff\<close>.
\<close>

theorem scrape_iconic_filtered_sorted:
  "scrape_iconic fuel w brand threshold = Some (Inr df) \<longrightarrow>
     (\<forall>r\<in>set df.
         (\<exists>a :: anchor. get_num (price_final a) = Inr (Some (row_price r))
              \<and> get_num (price_original a) = Inr (Some (row_was r)))
         \<and> row_price r \<noteq> 0 \<and> row_was r \<noteq> 0
         \<and> row_diff r = row_was r - row_price r
         \<and> threshold \<le> row_was r - row_price r)
     \<and> sorted_wrt (\<lambda>r s. row_diff s \<le> row_diff r) df"
proof
  assume res: "scrape_iconic fuel w brand threshold = Some (Inr df)"
  have "(\<exists>a :: anchor. get_num (price_final a) = Inr (Some (row_price r))
              \<and> get_num (price_original a) = Inr (Some (row_was r)))
         \<and> row_price r \<noteq> 0 \<and> row_was r \<noteq> 0
         \<and> row_diff r = row_was r - row_price r
         \<and> threshold \<le> row_was r - row_price r" if "r \<in> set df" for r
  proof -
    from scrape_iconic_rows [OF res that] obtain a rs' where
      a: "scrape_anchor w threshold a = Inr rs'" "r \<in> set rs'" by blast
    from scrape_anchor_rows [OF a] show ?thesis by auto
  qed
  with scrape_iconic_sorted [OF res]
  show "(\<forall>r\<in>set df.
         (\<exists>a :: anchor. get_num (price_final a) = Inr (Some (row_price r))
              \<and> get_num (price_original a) = Inr (Some (row_was r)))
         \<and> row_price r \<noteq> 0 \<and> row_was r \<noteq> 0
         \<and> row_diff r = row_was r - row_price r
         \<and> threshold \<le> row_was r - row_price r)
     \<and> sorted_wrt (\<lambda>r s. row_diff s \<le> row_diff r) df"
    by blast
qed

theorem scrape_iconic_filtered_sorted_witness:
  "scrape_iconic 5 sale_site ''womens-sale'' 200 =
   Some (Inr [\<lparr>row_title = ''Acme Boots'', row_price = 10, row_was = 500, row_diff = 490,
                row_link = ''https://www.theiconic.com.au/acme-boots-1''\<rparr>,
              \<lparr>row_title = ''Acme Boots'', row_price = 100, row_was = 350, row_diff = 250,
                row_link = ''https://www.theiconic.com.au/acme-boots-1''\<rparr>])
   \<and> (200 :: rat) \<le> 500 - 10 \<and> (200 :: rat) \<le> 350 - 100 \<and> (250 :: rat) \<le> 490
   \<and> sorted_wrt (\<lambda>r s. row_diff s \<le> row_diff r)
        [\<lparr>row_title = ''Acme Boots'', row_price = 10, row_was = 500, row_diff = 490,
          row_link = ''https://www.theiconic.com.au/acme-boots-1''\<rparr>,
         \<lparr>row_title = ''Acme Boots'', row_price = 100, row_was = 350, row_diff = 250,
          row_link = ''https://www.theiconic.com.au/acme-boots-1''\<rparr>]"
  using sale_site_200
    scrape_iconic_filtered_sorted [of 5 sale_site "''womens-sale''" 200
      "[\<lparr>row_title = ''Acme Boots'', row_price = 10, row_was = 500, row_diff = 490,
         row_link = ''https://www.theiconic.com.au/acme-boots-1''\<rparr>,
        \<lparr>row_title = ''Acme Boots'', row_price = 100, row_was = 350, row_diff = 250,
         row_link = ''https://www.theiconic.com.au/acme-boots-1''\<rparr>]"]
  by simp

text \<open>
  Claim C8, as stated, fails: the only filter is \<^verbatim>\<open>price_diff >= threshold\<close>, so with the
  threshold -50 an anchor priced 100 with an original price of 80 is kept, with the
  \<^verbatim>\<open>diff\<close> -20.
\<close>

theorem negative_threshold_counterexample:
  "scrape_iconic 5 markup_site ''womens-sale'' (- 50) =
   Some (Inr [\<lparr>row_title = ''Acme Boots'', row_price = 100, row_was = 80, row_diff = - 20,
                row_link = ''https://www.theiconic.com.au/acme-boots-1''\<rparr>])
   \<and> (- 20 :: rat) < 0"
  by code_simp

text \<open>
  Claim C8, amended. For every category and every threshold that is not negative, every
  row of the table \<^verbatim>\<open>scrape_iconic\<close> returns has a \<^verbatim>\<open>diff\<close> of at least 0, that is, a
  price not above its was.
\<close>

theorem scrape_iconic_diff_nonneg:
  "0 \<le> threshold \<and> scrape_iconic fuel w brand threshold = Some (Inr df) \<longrightarrow>
     (\<forall>r\<in>set df. 0 \<le> row_diff r \<and> row_price r \<le> row_was r)"
proof
  assume h: "0 \<le> threshold \<and> scrape_iconic fuel w brand threshold = Some (Inr df)"
  have "0 \<le> row_diff r \<and> row_price r \<le> row_was r" if "r \<in> set df" for r
  proof -
    from h have res: "scrape_iconic fuel w brand threshold = Some (Inr df)" by simp
    from scrape_iconic_rows [OF res that] obtain a rs' where
      a: "scrape_anchor w threshold a = Inr rs'" "r \<in> set rs'" by blast
    from scrape_anchor_rows [OF a] h show ?thesis by auto
  qed
  then show "\<forall>r\<in>set df. 0 \<le> row_diff r \<and> row_price r \<le> row_was r"
    by blast
qed

theorem scrape_iconic_diff_nonneg_witness:
  "(0 :: rat) \<le> 0
   \<and> scrape_iconic 5 sale_site ''womens-sale'' 0 =
     Some (Inr [\<lparr>row_title = ''Acme Boots'', row_price = 10, row_was = 500, row_diff = 490,
                  row_link = ''https://www.theiconic.com.au/acme-boots-1''\<rparr>,
                \<lparr>row_title = ''Acme Boots'', row_price = 100, row_was = 350, row_diff = 250,
                  row_link = ''https://www.theiconic.com.au/acme-boots-1''\<rparr>,
                \<lparr>row_title = ''Acme Boots'', row_price = 50, row_was = 60, row_diff = 10,
                  row_link = ''https://www.theiconic.com.au/acme-boots-1''\<rparr>])
   \<and> (0 :: rat) \<le> 490 \<and> (10 :: rat) \<le> 500 \<and> (0 :: rat) \<le> 10 \<and> (50 :: rat) \<le> 60"
  using sale_site_0
    scrape_iconic_diff_nonneg [of 0 5 sale_site "''womens-sale''"
      "[\<lparr>row_title = ''Acme Boots'', row_price = 10, row_was = 500, row_diff = 490,
         row_link = ''https://www.theiconic.com.au/acme-boots-1''\<rparr>,
        \<lparr>row_title = ''Acme Boots'', row_price = 100, row_was = 350, row_diff = 250,
         row_link = ''https://www.theiconic.com.au/acme-boots-1''\<rparr>,
        \<lparr>row_title = ''Acme Boots'', row_price = 50, row_was = 60, row_diff = 10,
         row_link = ''https://www.theiconic.com.au/acme-boots-1''\<rparr>]"]
  by simp

subsection \<open>The matcher\<close>










text \<open>
  Claim C2 does not hold of the code. The \<^verbatim>\<open>except\<close> branch of the search request prints
  and leaves the retry loop, and the round goes on to \<^verbatim>\<open>soup.select\<close>. When the request
  of the first candidate fails, \<^verbatim>\<open>soup\<close> is unbound and the run ends with an
  UnboundLocalError. When the request of a later candidate fails (here the third request
  of the run, the search for the second candidate), the round works on the search result
  of the candidate before, and a record is returned for the candidate whose search
  failed.
\<close>

theorem compare_search_fetch_error:
  "compare_search offline [dress_row ''Acme Red Dress'' 100 443] (9 / 10) = Inl UnboundLocalError
   \<and> http_request flaky_site 2
        (GET (''https://www.davidjones.com/search?q='' @ quote flaky_site ''ACME red dress''))
      = Inl RuntimeError
   \<and> compare_search flaky_site
        [dress_row ''Acme Red Dress'' 100 443, dress_row ''ACME red dress'' 90 443] (9 / 10)
      = Inr [\<lparr>title_dj = ''Acme Red Dress'', title_pm = ''ACME red dress'', price_diff = 130,
              price_dj = 220, price_pm = 90,
              link_dj = ''https://www.davidjones.com/product/acme-red-dress-12345'',
              link_pm = ''https://www.theiconic.com.au/acme-red-dress-1''\<rparr>,
             \<lparr>title_dj = ''Acme Red Dress'', title_pm = ''Acme Red Dress'', price_diff = 120,
              price_dj = 220, price_pm = 100,
              link_dj = ''https://www.davidjones.com/product/acme-red-dress-12345'',
              link_pm = ''https://www.theiconic.com.au/acme-red-dress-1''\<rparr>]"
  by code_simp

end
